theory Spec2Isabelle
  imports Complex_Main "HOL-Library.Sublist"
begin

section \<open>Numbers\<close>

text \<open>
  A JavaScript \<open>number\<close> is an IEEE 754 binary64 value. Here it is \<open>None\<close> for
  \<open>NaN\<close>, or \<open>Some x\<close> for the finite value \<open>x\<close>. An arithmetic operation returns
  the exact result rounded to the nearest double, ties to even (\<open>fl\<close>): 53 significant
  bits, and below \<open>2\<^sup>-\<^sup>1\<^sup>0\<^sup>2\<^sup>2\<close> the fixed spacing of the subnormal numbers. The sign of a
  zero is not kept; it plays no part in what follows.
\<close>

definition round_even :: "real \<Rightarrow> int" where
  "round_even x =
     (let f = \<lfloor>x\<rfloor>; r = x - of_int f
      in if r < 1 / 2 then f else if 1 / 2 < r then f + 1 else if even f then f else f + 1)"

definition emin :: int where
  "emin = - 1022"

definition fl :: "real \<Rightarrow> real" where
  "fl x =
     (if x = 0 then 0
      else let e = max \<lfloor>log 2 \<bar>x\<bar>\<rfloor> emin;
               u = 2 powi (e - 52)
           in of_int (round_even (x / u)) * u)"

type_synonym number = "real option"

definition Number :: "real \<Rightarrow> number" where
  "Number x = Some (fl x)"

definition js_arith :: "(real \<Rightarrow> real \<Rightarrow> real) \<Rightarrow> number \<Rightarrow> number \<Rightarrow> number" where
  "js_arith f x y =
     (case x of
        None \<Rightarrow> None
      | Some a \<Rightarrow> (case y of None \<Rightarrow> None | Some b \<Rightarrow> Number (f a b)))"

definition js_add :: "number \<Rightarrow> number \<Rightarrow> number" where
  "js_add = js_arith (\<lambda>a b. a + b)"

definition js_mul :: "number \<Rightarrow> number \<Rightarrow> number" where
  "js_mul = js_arith (\<lambda>a b. a * b)"

text \<open>A quotient by zero is an infinity or \<open>NaN\<close>; no divisor of the source is zero.\<close>

definition js_div :: "number \<Rightarrow> number \<Rightarrow> number" where
  "js_div x y = (if y = Some 0 then None else js_arith (\<lambda>a b. a / b) x y)"

text \<open>
  Infinities are not values of \<open>number\<close>. With finite coordinates the only operation of
  the source that can overflow is a difference of two coordinates, and an infinite
  difference stays infinite until \<open>Math.sin\<close> turns it into \<open>NaN\<close>: so \<open>js_sub\<close> gives
  \<open>None\<close> at once when the rounded difference exceeds the largest double.
\<close>

definition MAX_VALUE :: real where
  "MAX_VALUE = (2 - 1 / 2 ^ 52) * 2 ^ 1023"

definition js_sub :: "number \<Rightarrow> number \<Rightarrow> number" where
  "js_sub x y =
     (case js_arith (\<lambda>a b. a - b) x y of
        None \<Rightarrow> None
      | Some r \<Rightarrow> if MAX_VALUE < \<bar>r\<bar> then None else Some r)"

text \<open>\<open>x <= y\<close>: false when the left operand is \<open>NaN\<close>.\<close>

definition js_le :: "number \<Rightarrow> real \<Rightarrow> bool" where
  "js_le x y = (case x of None \<Rightarrow> False | Some v \<Rightarrow> v \<le> y)"

section \<open>The Math object\<close>

text \<open>
  ECMAScript leaves \<open>Math.sin\<close>, \<open>Math.cos\<close> and \<open>Math.atan2\<close> on finite non-zero
  arguments to the implementation (``implementation-approximated''). The distance takes
  these approximations as a parameter, a record \<open>Math\<close>; the values the standard fixes are
  written out: \<open>sin 0 = 0\<close>, \<open>cos 0 = 1\<close>, \<open>atan2 (0, x) = 0\<close> for \<open>x \<ge> 0\<close>, and
  \<open>NaN\<close> for a \<open>NaN\<close> argument. \<open>Math.sqrt\<close> is the correctly rounded square root, \<open>NaN\<close>
  on a negative argument; \<open>Math.round\<close> is the nearest integer, a tie going up;
  \<open>Math.PI\<close> is the double nearest to \<open>\<pi>\<close>, 3.141592653589793.
\<close>

record Math =
  sin_impl :: "real \<Rightarrow> real"
  cos_impl :: "real \<Rightarrow> real"
  atan2_impl :: "real \<Rightarrow> real \<Rightarrow> real"

definition Math_PI :: real where
  "Math_PI = 884279719003555 / 281474976710656"

definition Math_sin :: "Math \<Rightarrow> number \<Rightarrow> number" where
  "Math_sin M x = map_option (\<lambda>a. if a = 0 then 0 else sin_impl M a) x"

definition Math_cos :: "Math \<Rightarrow> number \<Rightarrow> number" where
  "Math_cos M x = map_option (\<lambda>a. if a = 0 then 1 else cos_impl M a) x"

definition Math_sqrt :: "number \<Rightarrow> number" where
  "Math_sqrt x =
     (case x of None \<Rightarrow> None | Some a \<Rightarrow> if a < 0 then None else Number (sqrt a))"

definition Math_atan2 :: "Math \<Rightarrow> number \<Rightarrow> number \<Rightarrow> number" where
  "Math_atan2 M y x =
     (case y of
        None \<Rightarrow> None
      | Some b \<Rightarrow>
          (case x of
             None \<Rightarrow> None
           | Some a \<Rightarrow> Some (if b = 0 \<and> 0 \<le> a then 0 else atan2_impl M b a)))"

definition Math_round :: "number \<Rightarrow> number" where
  "Math_round x = map_option (\<lambda>a. of_int \<lfloor>a + 1 / 2\<rfloor>) x"

section \<open>Geospatial distance (lib/location-service.ts)\<close>

record LocationCoordinates =
  latitude :: real
  longitude :: real

definition toRad :: "number \<Rightarrow> number" where
  "toRad degrees = js_mul degrees (js_div (Some Math_PI) (Some 180))"

definition calculateDistance ::
  "Math \<Rightarrow> LocationCoordinates \<Rightarrow> LocationCoordinates \<Rightarrow> number" where
  "calculateDistance M coord1 coord2 =
     (let R = Some 6371;
          dLat = toRad (js_sub (Some (latitude coord2)) (Some (latitude coord1)));
          dLon = toRad (js_sub (Some (longitude coord2)) (Some (longitude coord1)));
          lat1 = toRad (Some (latitude coord1));
          lat2 = toRad (Some (latitude coord2));
          a = js_add
                (js_mul (Math_sin M (js_div dLat (Some 2))) (Math_sin M (js_div dLat (Some 2))))
                (js_mul
                   (js_mul
                      (js_mul (Math_sin M (js_div dLon (Some 2)))
                              (Math_sin M (js_div dLon (Some 2))))
                      (Math_cos M lat1))
                   (Math_cos M lat2));
          c = js_mul (Some 2) (Math_atan2 M (Math_sqrt a) (Math_sqrt (js_sub (Some 1) a)));
          distance = js_mul R c
      in js_div (Math_round (js_mul distance (Some 10))) (Some 10))"

text \<open>The term \<open>a\<close> of \<open>calculateDistance\<close>, named for the proofs.\<close>

definition haversine_a ::
  "Math \<Rightarrow> LocationCoordinates \<Rightarrow> LocationCoordinates \<Rightarrow> number" where
  "haversine_a M coord1 coord2 =
     (let dLat = toRad (js_sub (Some (latitude coord2)) (Some (latitude coord1)));
          dLon = toRad (js_sub (Some (longitude coord2)) (Some (longitude coord1)));
          lat1 = toRad (Some (latitude coord1));
          lat2 = toRad (Some (latitude coord2))
      in js_add
           (js_mul (Math_sin M (js_div dLat (Some 2))) (Math_sin M (js_div dLat (Some 2))))
           (js_mul
              (js_mul
                 (js_mul (Math_sin M (js_div dLon (Some 2)))
                         (Math_sin M (js_div dLon (Some 2))))
                 (Math_cos M lat1))
              (Math_cos M lat2)))"

definition isWithinRadius ::
  "Math \<Rightarrow> LocationCoordinates \<Rightarrow> LocationCoordinates \<Rightarrow> real \<Rightarrow> bool" where
  "isWithinRadius M point center radiusKm =
     (let distance = calculateDistance M point center in js_le distance radiusKm)"

subsection \<open>Sampled values of the approximated functions\<close>

text \<open>
  \<open>sampled\<close> is an instance of \<open>Math\<close> for the concrete evaluations below. At the
  arguments those evaluations meet it returns the double nearest to the exact value
  (and 0 anywhere else), each double written as a fraction with a power of two below:
  \<^item> \<open>sin (-0.13962634015954636) = -0.13917310096006544\<close>, \<open>sin 1.5707963267948966 = 1\<close>,
    \<open>sin (\<plusminus>0.17782985215645022) = \<plusminus>0.1768940672599572\<close>,
    \<open>sin (\<plusminus>0.11320100006132552) = \<plusminus>0.11295938651848828\<close>;
  \<^item> \<open>cos (\<plusminus>0.13962634015954636) = 0.9902680687415704\<close>,
    \<open>cos 0.2921541541498348 = 0.9576256675096876\<close>,
    \<open>cos 0.6478138584627352 = 0.7974049183076016\<close>;
  \<^item> \<open>atan2 (0.2025712432625598, 0.979267528003998) = 0.2039828912258672\<close>,
    \<open>atan2 (0.20257124326255976, 0.979267528003998) = 0.20398289122586719\<close>.
\<close>

definition lookup :: "('a \<times> real) list \<Rightarrow> 'a \<Rightarrow> real" where
  "lookup t x = (case map_of t x of None \<Rightarrow> 0 | Some y \<Rightarrow> y)"

definition sampled :: Math where
  "sampled =
     \<lparr>sin_impl = lookup
       [((- 5030569068109113 / 36028797018963968), (- 5014239404989977 / 36028797018963968)),
        ((884279719003555 / 562949953421312), 1),
        ((6406995647257117 / 36028797018963968), (3186640221583979 / 18014398509481984)),
        ((- 4078495853553225 / 36028797018963968), (- 4069790808261309 / 36028797018963968)),
        ((- 6406995647257117 / 36028797018963968), (- 3186640221583979 / 18014398509481984)),
        ((4078495853553225 / 36028797018963968), (4069790808261309 / 36028797018963968))],
      cos_impl = lookup
       [((5030569068109113 / 36028797018963968), (4459770905381437 / 4503599627370496)),
        ((- 5030569068109113 / 36028797018963968), (4459770905381437 / 4503599627370496)),
        ((2631490679527877 / 9007199254740992), (8625525198714103 / 9007199254740992)),
        ((5834988503156435 / 9007199254740992), (7182384985907031 / 9007199254740992))],
      atan2_impl = (\<lambda>y x. lookup
       [(((7298398205385939 / 36028797018963968), (275639304638427 / 281474976710656)), (229664318228693 / 1125899906842624)),
        (((3649199102692969 / 18014398509481984), (275639304638427 / 281474976710656)), (7349258183318175 / 36028797018963968))] (y, x))\<rparr>"

section \<open>Strings\<close>

text \<open>
  A string is a list of characters. \<open>startsWith\<close> and \<open>string_includes\<close> are
  \<open>String.prototype.startsWith\<close> and \<open>String.prototype.includes\<close>; \<open>truthy\<close>
  gives the value of a \<open>string | null\<close> when a condition accepts it (neither
  \<open>null\<close>/\<open>undefined\<close> nor the empty string).
\<close>

definition startsWith :: "string \<Rightarrow> string \<Rightarrow> bool" where
  "startsWith s p = (take (length p) s = p)"

fun string_includes :: "string \<Rightarrow> string \<Rightarrow> bool" where
  "string_includes [] q = (q = [])"
| "string_includes (c # cs) q = (startsWith (c # cs) q \<or> string_includes cs q)"

definition truthy :: "string option \<Rightarrow> string option" where
  "truthy v = (case v of None \<Rightarrow> None | Some s \<Rightarrow> if s = [] then None else Some s)"

section \<open>Worker search (app/(tabs)/search.tsx)\<close>

record WorkerProfile =
  id :: string
  name :: string
  profession :: string
  location :: LocationCoordinates
  tags :: "string list"

text \<open>The three stages of the filter effect, each skipped when its criterion is not set.\<close>

definition byProfession :: "string option \<Rightarrow> WorkerProfile list \<Rightarrow> WorkerProfile list" where
  "byProfession selectedProfession filtered =
     (case truthy selectedProfession of
        Some p \<Rightarrow> filter (\<lambda>w. profession w = p) filtered
      | None \<Rightarrow> filtered)"

definition byQuery :: "string \<Rightarrow> WorkerProfile list \<Rightarrow> WorkerProfile list" where
  "byQuery searchQuery filtered =
     (if searchQuery \<noteq> [] then
        filter (\<lambda>w. string_includes (name w) searchQuery \<or>
                    string_includes (profession w) searchQuery \<or>
                    list_ex (\<lambda>tag. string_includes tag searchQuery) (tags w)) filtered
      else filtered)"

definition byDistance ::
  "Math \<Rightarrow> LocationCoordinates option \<Rightarrow> real \<Rightarrow> WorkerProfile list \<Rightarrow> WorkerProfile list" where
  "byDistance M userLocation maxDistance filtered =
     (case userLocation of
        Some origin \<Rightarrow>
          filter (\<lambda>w. let distance = calculateDistance M origin (location w)
                      in js_le distance maxDistance) filtered
      | None \<Rightarrow> filtered)"

text \<open>The effect itself: the value it passes to \<open>setFilteredWorkers\<close>.\<close>

definition filterWorkers ::
  "Math \<Rightarrow> string \<Rightarrow> string option \<Rightarrow> real \<Rightarrow> LocationCoordinates option \<Rightarrow>
   WorkerProfile list \<Rightarrow> WorkerProfile list" where
  "filterWorkers M searchQuery selectedProfession maxDistance userLocation workers =
     (let filtered = workers;
          filtered = byProfession selectedProfession filtered;
          filtered = byQuery searchQuery filtered;
          filtered = byDistance M userLocation maxDistance filtered
      in filtered)"

section \<open>OAuth redirect handshake (handleLogin of the home screen)\<close>

subsection \<open>decodeURIComponent\<close>

text \<open>
  \<open>decodeURIComponent\<close> after ECMAScript's \<open>Decode\<close>: every \<open>%\<close> must start an escape
  \<open>%XY\<close> of two hexadecimal digits; an octet below 128 is its character, any other octet
  must begin a well-formed UTF-8 sequence whose remaining octets are escapes too. Anything
  else throws \<open>URIError\<close>, here \<open>None\<close>. A character of a string stands for one octet of
  its UTF-8 form, so a decoded sequence is kept as its octets.
\<close>

definition hex_digit :: "char \<Rightarrow> nat option" where
  "hex_digit c = map_of
     [(CHR ''0'', 0), (CHR ''1'', 1), (CHR ''2'', 2), (CHR ''3'', 3), (CHR ''4'', 4),
      (CHR ''5'', 5), (CHR ''6'', 6), (CHR ''7'', 7), (CHR ''8'', 8), (CHR ''9'', 9),
      (CHR ''a'', 10), (CHR ''b'', 11), (CHR ''c'', 12), (CHR ''d'', 13), (CHR ''e'', 14),
      (CHR ''f'', 15), (CHR ''A'', 10), (CHR ''B'', 11), (CHR ''C'', 12), (CHR ''D'', 13),
      (CHR ''E'', 14), (CHR ''F'', 15)] c"

definition ParseHexOctet :: "char \<Rightarrow> char \<Rightarrow> nat option" where
  "ParseHexOctet h l =
     (case hex_digit h of
        None \<Rightarrow> None
      | Some a \<Rightarrow> (case hex_digit l of None \<Rightarrow> None | Some b \<Rightarrow> Some (16 * a + b)))"

datatype unit_or_octet = Unit char | Octet nat

fun escapes :: "string \<Rightarrow> unit_or_octet list option" where
  "escapes [] = Some []"
| "escapes (c # cs) =
     (if c \<noteq> CHR ''%'' then map_option (Cons (Unit c)) (escapes cs)
      else (case cs of
              h # l # rest \<Rightarrow>
                (case ParseHexOctet h l of
                   None \<Rightarrow> None
                 | Some B \<Rightarrow> map_option (Cons (Octet B)) (escapes rest))
            | _ \<Rightarrow> None))"

definition leading_ones :: "nat \<Rightarrow> nat" where
  "leading_ones B =
     (if B < 128 then 0 else if B < 192 then 1 else if B < 224 then 2
      else if B < 240 then 3 else if B < 248 then 4 else 5)"

definition continuation :: "nat \<Rightarrow> bool" where
  "continuation b = (128 \<le> b \<and> b \<le> 191)"

fun valid_utf8 :: "nat list \<Rightarrow> bool" where
  "valid_utf8 [b0, b1] = (194 \<le> b0 \<and> b0 \<le> 223 \<and> continuation b1)"
| "valid_utf8 [b0, b1, b2] =
     (continuation b2 \<and>
      (if b0 = 224 then 160 \<le> b1 \<and> b1 \<le> 191
       else if b0 = 237 then 128 \<le> b1 \<and> b1 \<le> 159
       else 225 \<le> b0 \<and> b0 \<le> 239 \<and> continuation b1))"
| "valid_utf8 [b0, b1, b2, b3] =
     (continuation b2 \<and> continuation b3 \<and>
      (if b0 = 240 then 144 \<le> b1 \<and> b1 \<le> 191
       else if b0 = 244 then 128 \<le> b1 \<and> b1 \<le> 143
       else 241 \<le> b0 \<and> b0 \<le> 243 \<and> continuation b1))"
| "valid_utf8 _ = False"

fun octets_of :: "unit_or_octet list \<Rightarrow> nat list option" where
  "octets_of [] = Some []"
| "octets_of (Unit c # xs) = None"
| "octets_of (Octet b # xs) = map_option (Cons b) (octets_of xs)"

fun Decode :: "unit_or_octet list \<Rightarrow> string option" where
  "Decode [] = Some []"
| "Decode (Unit c # xs) = map_option (Cons c) (Decode xs)"
| "Decode (Octet B # xs) =
     (let n = leading_ones B in
      if n = 0 then map_option (Cons (char_of B)) (Decode xs)
      else if n = 1 \<or> n > 4 then None
      else if length xs < n - 1 then None
      else (case octets_of (take (n - 1) xs) of
              None \<Rightarrow> None
            | Some Octets \<Rightarrow>
                if valid_utf8 (B # Octets)
                then map_option (append (map char_of (B # Octets))) (Decode (drop (n - 1) xs))
                else None))"

definition decodeURIComponent :: "string \<Rightarrow> string option" where
  "decodeURIComponent s = (case escapes s of None \<Rightarrow> None | Some xs \<Rightarrow> Decode xs)"

subsection \<open>The URL constructor\<close>

text \<open>
  The source reads a redirect through the platform's \<open>new URL(s).searchParams\<close>. The
  handshake takes that constructor as a parameter \<open>newURL\<close>: the list of name-value pairs
  of the query, or \<open>None\<close> when constructing the URL or reading its parameters throws.
  \<open>searchParams_get\<close> is \<open>URLSearchParams.get\<close>: the value of the first pair with the
  name, \<open>None\<close> for \<open>null\<close>.
\<close>

type_synonym URLSearchParams = "(string \<times> string) list"

definition searchParams_get :: "URLSearchParams \<Rightarrow> string \<Rightarrow> string option" where
  "searchParams_get ps n = map_of ps n"

text \<open>
  \<open>stdURL\<close> is an instance of the parameter after the URL Standard, used where a theorem
  needs a concrete parser: leading and trailing C0 controls and spaces are stripped, tabs
  and newlines removed; the input must begin with a scheme (a letter, then letters, digits,
  \<open>+\<close>, \<open>-\<close>, \<open>.\<close>) and a colon, else parsing fails, there being no base URL; the
  scheme \<open>http\<close>, \<open>https\<close>, \<open>ws\<close>, \<open>wss\<close> or \<open>ftp\<close> needs a non-empty authority;
  the query runs from the first \<open>?\<close> to the first \<open>#\<close> and is read as
  \<open>application/x-www-form-urlencoded\<close> (split at \<open>&\<close>, empty pieces skipped, name and
  value split at the first \<open>=\<close>, \<open>+\<close> a space, valid percent escapes decoded). The
  syntax of hosts and ports is not checked beyond emptiness, and decoded octets are kept
  as they are.
\<close>

definition ascii_alpha :: "char \<Rightarrow> bool" where
  "ascii_alpha c = (c \<in> set ''abcdefghijklmnopqrstuvwxyzABCDEFGHIJKLMNOPQRSTUVWXYZ'')"

definition scheme_char :: "char \<Rightarrow> bool" where
  "scheme_char c = (ascii_alpha c \<or> c \<in> set ''0123456789+-.'')"

definition c0_or_space :: "char \<Rightarrow> bool" where
  "c0_or_space c = ((of_char c :: nat) \<le> 32)"

definition tab_or_newline :: "char \<Rightarrow> bool" where
  "tab_or_newline c = ((of_char c :: nat) \<in> {9, 10, 13})"

definition url_input :: "string \<Rightarrow> string" where
  "url_input s =
     filter (\<lambda>c. \<not> tab_or_newline c)
       (rev (dropWhile c0_or_space (rev (dropWhile c0_or_space s))))"

definition split_scheme :: "string \<Rightarrow> (string \<times> string) option" where
  "split_scheme s =
     (case (takeWhile scheme_char s, dropWhile scheme_char s) of
        (c # cs, d # rest) \<Rightarrow>
          if ascii_alpha c \<and> d = CHR '':'' then Some (c # cs, rest) else None
      | _ \<Rightarrow> None)"

definition ascii_lower :: "char \<Rightarrow> char" where
  "ascii_lower c =
     (let n = of_char c :: nat in if 65 \<le> n \<and> n \<le> 90 then char_of (n + 32) else c)"

definition needs_host :: "string \<Rightarrow> bool" where
  "needs_host scheme =
     (map ascii_lower scheme \<in> set [''http'', ''https'', ''ws'', ''wss'', ''ftp''])"

definition slash :: "char \<Rightarrow> bool" where
  "slash c = (c = CHR ''/'' \<or> c = CHR 0x5C)"

fun percent_decode :: "string \<Rightarrow> string" where
  "percent_decode (c # h # l # rest) =
     (if c = CHR ''%'' then
        (case ParseHexOctet h l of
           Some B \<Rightarrow> char_of B # percent_decode rest
         | None \<Rightarrow> c # percent_decode (h # l # rest))
      else c # percent_decode (h # l # rest))"
| "percent_decode cs = cs"

fun split_on :: "char \<Rightarrow> string \<Rightarrow> string list" where
  "split_on d [] = [[]]"
| "split_on d (c # cs) =
     (case split_on d cs of
        [] \<Rightarrow> [[c]]
      | x # xs \<Rightarrow> if c = d then [] # x # xs else (c # x) # xs)"

definition form_decode :: "string \<Rightarrow> string" where
  "form_decode s = percent_decode (map (\<lambda>c. if c = CHR ''+'' then CHR '' '' else c) s)"

definition urlencoded_parse :: "string \<Rightarrow> URLSearchParams" where
  "urlencoded_parse q =
     map (\<lambda>piece. (form_decode (takeWhile (\<lambda>c. c \<noteq> CHR ''='') piece),
                    form_decode (drop 1 (dropWhile (\<lambda>c. c \<noteq> CHR ''='') piece))))
       (filter (\<lambda>piece. piece \<noteq> []) (split_on CHR ''&'' q))"

definition stdURL :: "string \<Rightarrow> URLSearchParams option" where
  "stdURL s =
     (case split_scheme (url_input s) of
        None \<Rightarrow> None
      | Some (scheme, rest) \<Rightarrow>
          (let before_fragment = takeWhile (\<lambda>c. c \<noteq> CHR ''#'') rest;
               query = drop 1 (dropWhile (\<lambda>c. c \<noteq> CHR ''?'') before_fragment);
               authority = takeWhile (\<lambda>c. \<not> slash c \<and> c \<noteq> CHR ''?'')
                             (dropWhile slash before_fragment)
           in if needs_host scheme \<and> authority = [] then None
              else Some (urlencoded_parse query)))"

subsection \<open>handleLogin\<close>

datatype WebBrowserResultType = cancel | dismiss | opened | locked | success

record WebBrowserResult =
  type :: WebBrowserResultType
  url :: "string option"

datatype OS = ios | android | web

text \<open>
  What one login attempt ends in. \<open>Success code state\<close> is the call
  \<open>router.push({pathname: "/oauth/callback", params: {code, state}})\<close>; the failures are
  the branches that only log: an \<open>error\<close> parameter, a missing \<open>code\<close> or \<open>state\<close>, a
  fallback that extracts nothing, and the outer \<open>catch\<close> (\<open>LoginError\<close>), which is where
  an exception of the fallback itself arrives.
\<close>

datatype failure = OAuthError string | MissingCodeOrState | CouldNotExtract | LoginError

datatype outcome = Redirected | Cancelled | NoAction | Failed failure | Success string string

text \<open>\<open>s.replace(/^exp(s)?:\/\//, "http://")\<close>\<close>

definition replace_exp :: "string \<Rightarrow> string" where
  "replace_exp s =
     (if startsWith s ''exps://'' then ''http://'' @ drop 7 s
      else if startsWith s ''exp://'' then ''http://'' @ drop 6 s
      else s)"

text \<open>
  \<open>s.match(/[?&]name=([^&]+)/)\<close>: the capture group of the leftmost match, that is the
  longest run of characters other than \<open>&\<close> after the first \<open>?name=\<close> or \<open>&name=\<close>
  that has such a character after it.
\<close>

fun regex_param :: "string \<Rightarrow> string \<Rightarrow> string option" where
  "regex_param n [] = None"
| "regex_param n (c # cs) =
     (let group = takeWhile (\<lambda>x. x \<noteq> CHR ''&'') (drop (length n + 1) cs)
      in if (c = CHR ''?'' \<or> c = CHR ''&'') \<and> startsWith cs (n @ ''='') \<and> group \<noteq> []
         then Some group
         else regex_param n cs)"

text \<open>
  The same in the words of the claim, without the regular expression. \<open>match_at n s\<close>:
  the text \<open>s\<close> begins with \<open>?n=\<close> or \<open>&n=\<close> and a character other than \<open>&\<close>.
  \<open>first_value n u g\<close>: \<open>g\<close> is what follows the leftmost such place of \<open>u\<close>, up
  to the next \<open>&\<close> or the end of the text.
\<close>

definition match_at :: "string \<Rightarrow> string \<Rightarrow> bool" where
  "match_at n s =
     (case s of
        [] \<Rightarrow> False
      | d # t \<Rightarrow>
          (d = CHR ''?'' \<or> d = CHR ''&'') \<and> startsWith t (n @ ''='') \<and>
          (case drop (length n + 1) t of [] \<Rightarrow> False | x # r \<Rightarrow> x \<noteq> CHR ''&''))"

definition first_value :: "string \<Rightarrow> string \<Rightarrow> string \<Rightarrow> bool" where
  "first_value n u g =
     (\<exists>i. match_at n (drop i u) \<and> (\<forall>j < i. \<not> match_at n (drop j u)) \<and>
          g = takeWhile (\<lambda>x. x \<noteq> CHR ''&'') (drop (i + length n + 2) u))"

text \<open>The \<open>catch\<close> block of the parse.\<close>

definition fallback :: "string \<Rightarrow> outcome" where
  "fallback result_url =
     (let codeMatch = regex_param ''code'' result_url;
          stateMatch = regex_param ''state'' result_url
      in case (codeMatch, stateMatch) of
           (Some c, Some s) \<Rightarrow>
             (case decodeURIComponent c of
                None \<Rightarrow> Failed LoginError
              | Some code \<Rightarrow>
                  (case decodeURIComponent s of
                     None \<Rightarrow> Failed LoginError
                   | Some state \<Rightarrow> Success code state))
         | _ \<Rightarrow> Failed CouldNotExtract)"

text \<open>The string handed to the URL constructor.\<close>

definition urlStr :: "string \<Rightarrow> string" where
  "urlStr result_url =
     (if startsWith result_url ''exp://'' \<or> startsWith result_url ''exps://''
      then replace_exp result_url
      else result_url)"

text \<open>The \<open>try\<close> block on a redirect URL, with its \<open>catch\<close>.\<close>

definition callback :: "(string \<Rightarrow> URLSearchParams option) \<Rightarrow> string \<Rightarrow> outcome" where
  "callback newURL result_url =
     (case newURL (urlStr result_url) of
        None \<Rightarrow> fallback result_url
      | Some searchParams \<Rightarrow>
          (let code = searchParams_get searchParams ''code'';
               state = searchParams_get searchParams ''state'';
               error = searchParams_get searchParams ''error''
           in case truthy error of
                Some e \<Rightarrow> Failed (OAuthError e)
              | None \<Rightarrow>
                  (case (truthy code, truthy state) of
                     (Some c, Some s) \<Rightarrow> Success c s
                   | _ \<Rightarrow> Failed MissingCodeOrState)))"

text \<open>
  \<open>handleLogin\<close> from the result of the browser session on: on the web the page is
  redirected and no session is opened.
\<close>

definition handleLogin ::
  "(string \<Rightarrow> URLSearchParams option) \<Rightarrow> OS \<Rightarrow> WebBrowserResult \<Rightarrow> outcome" where
  "handleLogin newURL os result =
     (if os = web then Redirected
      else if type result = cancel then Cancelled
      else if type result = dismiss then Cancelled
      else if type result = success then
        (case truthy (url result) of
           None \<Rightarrow> NoAction
         | Some result_url \<Rightarrow> callback newURL result_url)
      else NoAction)"

section \<open>Properties of the rounding\<close>

lemma floor_log2:
  fixes x :: real
  assumes "2 powi e \<le> x" "x < 2 powi (e + 1)"
  shows "\<lfloor>log 2 x\<rfloor> = e"
proof -
  have pos: "0 < x" using assms(1) by (smt (verit) zero_less_power_int zero_less_numeral)
  have "2 powr (of_int e) \<le> x"
    using assms(1) by (simp add: powr_real_of_int')
  moreover have "x < 2 powr (of_int (e + 1))"
    using assms(2) powr_real_of_int' [of 2 "e + 1"] by simp
  ultimately have "of_int e \<le> log 2 x" "log 2 x < of_int (e + 1)"
    using pos by (simp_all add: le_log_iff log_less_iff)
  then show ?thesis by (simp add: floor_eq_iff)
qed

text \<open>The rounding of a number whose binary exponent \<open>e\<close> is known.\<close>

lemma fl_eval:
  assumes "2 powi e \<le> \<bar>x\<bar>" "\<bar>x\<bar> < 2 powi (e + 1)" "emin \<le> e"
    and "round_even (x / 2 powi (e - 52)) = m"
  shows "fl x = of_int m * 2 powi (e - 52)"
proof -
  have "x \<noteq> 0" using assms(1) by (smt (verit) zero_less_power_int zero_less_numeral)
  moreover have "\<lfloor>log 2 \<bar>x\<bar>\<rfloor> = e" using assms(1,2) by (rule floor_log2)
  ultimately show ?thesis using assms(3,4) by (simp add: fl_def Let_def max_def)
qed

lemma fl_0: "fl 0 = 0"
  by (simp add: fl_def)

lemma fl_1: "fl 1 = 1"
  by (simp add: fl_eval [where e = 0 and m = "2 ^ 52"] round_even_def power_int_minus emin_def)

lemma Number_0: "Number 0 = Some 0"
  by (simp add: Number_def fl_0)

lemma Number_1: "Number 1 = Some 1"
  by (simp add: Number_def fl_1)

lemma Number_eval:
  assumes "2 powi e \<le> \<bar>x\<bar>" "\<bar>x\<bar> < 2 powi (e + 1)" "emin \<le> e"
    and "round_even (x / 2 powi (e - 52)) = m"
    and "of_int m * 2 powi (e - 52) = r"
  shows "Number x = Some r"
  using fl_eval [OF assms(1-4)] assms(5) by (simp add: Number_def)

lemma round_even_le: "of_int (round_even y) \<le> y + 1"
  unfolding round_even_def Let_def by (auto) linarith+

lemma round_even_eq:
  assumes "of_int m - 1 / 2 < y" "y < of_int m + 1 / 2"
  shows "round_even y = m"
proof -
  have "\<lfloor>y\<rfloor> = m \<or> \<lfloor>y\<rfloor> = m - 1" using assms by linarith
  then show ?thesis
  proof
    assume f: "\<lfloor>y\<rfloor> = m"
    then have "y - of_int \<lfloor>y\<rfloor> < 1 / 2" using assms(2) by simp
    then show ?thesis using f by (simp add: round_even_def Let_def)
  next
    assume f: "\<lfloor>y\<rfloor> = m - 1"
    then have "1 / 2 < y - of_int \<lfloor>y\<rfloor>" using assms(1) by simp
    then show ?thesis using f by (simp add: round_even_def Let_def)
  qed
qed

lemma powi_floor_log2:
  fixes z :: real
  assumes "0 < z"
  shows "2 powi \<lfloor>log 2 z\<rfloor> \<le> z"
proof -
  have "2 powr (of_int \<lfloor>log 2 z\<rfloor>) \<le> 2 powr (log 2 z)"
    by (rule powr_mono) simp_all
  then show ?thesis using assms by (simp add: powr_real_of_int')
qed

lemma log2_powi: "log 2 (2 powi n) = of_int n"
  using powr_real_of_int' [of 2 n] log_powr_cancel [of 2 "of_int n"] by simp

text \<open>A negative number that is not below the subnormal range rounds to a negative one.\<close>

lemma fl_negative:
  assumes "z < 0" "2 powi emin \<le> \<bar>z\<bar>"
  shows "fl z < 0"
proof -
  define e where "e = \<lfloor>log 2 \<bar>z\<bar>\<rfloor>"
  have az: "0 < \<bar>z\<bar>" using assms(1) by simp
  have "log 2 (2 powi emin) \<le> log 2 \<bar>z\<bar>"
    using assms(2) az by (subst log_le_cancel_iff) simp_all
  then have ge: "emin \<le> e" by (simp add: e_def le_floor_iff log2_powi)
  define u :: real where "u = 2 powi (e - 52)"
  have u: "0 < u" by (simp add: u_def)
  have "2 powi e \<le> \<bar>z\<bar>" unfolding e_def using az by (rule powi_floor_log2)
  then have "2 powi e / u \<le> \<bar>z\<bar> / u" using u by (simp add: divide_right_mono)
  moreover have "(2::real) powi e / u = 2 powi 52"
    by (simp add: u_def power_int_diff)
  ultimately have "2 ^ 52 \<le> \<bar>z\<bar> / u" by simp
  then have "z / u \<le> - (2 ^ 52)" using assms(1) by (simp add: abs_if field_simps)
  then have "of_int (round_even (z / u)) \<le> - (2 ^ 52) + (1::real)"
    using round_even_le [of "z / u"] by linarith
  then have "of_int (round_even (z / u)) < (0::real)" by simp
  then have "of_int (round_even (z / u)) * u < 0" using u by (simp add: mult_neg_pos)
  moreover have "fl z = of_int (round_even (z / u)) * u"
  proof -
    have "max \<lfloor>log 2 \<bar>z\<bar>\<rfloor> emin = e" using ge by (simp add: e_def)
    moreover have "z \<noteq> 0" using assms(1) by simp
    ultimately show ?thesis by (simp only: fl_def Let_def u_def if_False)
  qed
  ultimately show ?thesis by simp
qed

text \<open>The correctly rounded square root, from bounds on the squares.\<close>

lemma Number_sqrt_eval:
  assumes "0 < m" "emin \<le> e" "0 \<le> q"
    and "(2 powi e)\<^sup>2 \<le> q" "q < (2 powi (e + 1))\<^sup>2"
    and "((of_int m - 1 / 2) * 2 powi (e - 52))\<^sup>2 < q"
    and "q < ((of_int m + 1 / 2) * 2 powi (e - 52))\<^sup>2"
    and "of_int m * 2 powi (e - 52) = r"
  shows "Number (sqrt q) = Some r"
proof -
  define u :: real where "u = 2 powi (e - 52)"
  have u: "0 < u" by (simp add: u_def)
  have lo: "2 powi e \<le> sqrt q"
    using assms(4) by (intro real_le_rsqrt) simp
  have hi: "sqrt q < 2 powi (e + 1)"
    using assms(5) by (intro real_less_lsqrt) simp_all
  have m: "0 \<le> (of_int m - 1 / 2) * u"
    using assms(1) u by (intro mult_nonneg_nonneg) simp_all
  have "(of_int m - 1 / 2) * u < sqrt q"
    using assms(6) m unfolding u_def by (intro real_less_rsqrt) simp
  moreover have "sqrt q < (of_int m + 1 / 2) * u"
    using assms(1,7) u unfolding u_def by (intro real_less_lsqrt) simp_all
  ultimately have "of_int m - 1 / 2 < sqrt q / u" "sqrt q / u < of_int m + 1 / 2"
    using u by (simp_all add: field_simps)
  then have "round_even (sqrt q / 2 powi (e - 52)) = m"
    unfolding u_def by (rule round_even_eq)
  moreover have "\<bar>sqrt q\<bar> = sqrt q" using assms(3) by simp
  ultimately show ?thesis
    using lo hi assms(2,8) by (intro Number_eval [where e = e and m = m]) simp_all
qed

section \<open>Properties of the operations\<close>

lemma js_add_Some: "js_add (Some a) (Some b) = Number (a + b)"
  by (simp add: js_add_def js_arith_def)

lemma js_mul_Some: "js_mul (Some a) (Some b) = Number (a * b)"
  by (simp add: js_mul_def js_arith_def)

lemma js_div_2: "js_div (Some a) (Some 2) = Number (a / 2)"
  and js_div_10: "js_div (Some a) (Some 10) = Number (a / 10)"
  and js_div_180: "js_div (Some a) (Some 180) = Number (a / 180)"
  by (simp_all add: js_div_def js_arith_def)

lemmas js_div_Some = js_div_2 js_div_10 js_div_180

lemma MAX_VALUE_ge: "1024 \<le> MAX_VALUE"
proof -
  have "(1::real) \<le> 2 - 1 / 2 ^ 52" by simp
  moreover have "(2::real) ^ 10 \<le> 2 ^ 1023" by (rule power_increasing) simp_all
  ultimately have "1 * 2 ^ 10 \<le> (2 - 1 / 2 ^ 52) * (2::real) ^ 1023"
    by (rule mult_mono) simp_all
  then show ?thesis by (simp add: MAX_VALUE_def)
qed

lemma js_sub_0: "js_sub (Some x) (Some x) = Some 0"
  using MAX_VALUE_ge by (simp add: js_sub_def js_arith_def Number_0)

lemma js_sub_eval:
  assumes "2 powi e \<le> \<bar>a - b\<bar>" "\<bar>a - b\<bar> < 2 powi (e + 1)" "emin \<le> e"
    and "round_even ((a - b) / 2 powi (e - 52)) = m"
    and "of_int m * 2 powi (e - 52) = r"
    and "\<bar>r\<bar> \<le> 1024"
  shows "js_sub (Some a) (Some b) = Some r"
  using Number_eval [OF assms(1-5)] assms(6) MAX_VALUE_ge
  by (simp add: js_sub_def js_arith_def)

lemma Math_sqrt_eval:
  assumes "0 < m" "emin \<le> e" "0 \<le> q"
    and "(2 powi e)\<^sup>2 \<le> q" "q < (2 powi (e + 1))\<^sup>2"
    and "((of_int m - 1 / 2) * 2 powi (e - 52))\<^sup>2 < q"
    and "q < ((of_int m + 1 / 2) * 2 powi (e - 52))\<^sup>2"
    and "of_int m * 2 powi (e - 52) = r"
  shows "Math_sqrt (Some q) = Some r"
  using Number_sqrt_eval [OF assms] assms(3) by (simp add: Math_sqrt_def)

text \<open>The square root of \<open>1 - x\<close> is \<open>NaN\<close> for every double \<open>x\<close> above 1.\<close>

lemma Math_sqrt_one_minus:
  assumes "1 + 1 / 2 ^ 52 \<le> x"
  shows "Math_sqrt (js_sub (Some 1) (Some x)) = None"
proof -
  have "1 - x < 0"
    using assms by (smt (verit) divide_pos_pos zero_less_numeral zero_less_power)
  moreover have "(2::real) powi emin \<le> 1 / 2 ^ 52"
  proof -
    have "(2::real) powi emin \<le> 2 powi (- 52)"
      by (rule power_int_increasing) (simp_all add: emin_def)
    then show ?thesis by (simp add: power_int_minus field_simps)
  qed
  then have "2 powi emin \<le> \<bar>1 - x\<bar>" using assms by linarith
  ultimately have "fl (1 - x) < 0" by (rule fl_negative)
  then show ?thesis
    by (simp add: Math_sqrt_def js_sub_def js_arith_def Number_def)
qed

section \<open>Properties of the distance\<close>

lemma calculateDistance_a:
  "calculateDistance M c1 c2 =
     js_div (Math_round (js_mul (js_mul (Some 6371)
       (js_mul (Some 2)
          (Math_atan2 M (Math_sqrt (haversine_a M c1 c2))
                        (Math_sqrt (js_sub (Some 1) (haversine_a M c1 c2))))))
       (Some 10))) (Some 10)"
  by (simp add: calculateDistance_def haversine_a_def Let_def)

lemma calculateDistance_above_one:
  assumes "haversine_a M c1 c2 = Some x" "1 + 1 / 2 ^ 52 \<le> x"
  shows "calculateDistance M c1 c2 = None"
  unfolding calculateDistance_a assms(1) Math_sqrt_one_minus [OF assms(2)]
  by (simp add: Math_atan2_def js_mul_def js_arith_def Math_round_def js_div_def
           split: option.splits)

lemma toRad_Some: "\<exists>k. \<forall>x. toRad (Some x) = Number (x * k)"
  by (auto simp: toRad_def js_div_def js_mul_def js_arith_def Number_def)

text \<open>
  For equal points every step is exact: the differences are 0, so are their sines and
  the products with them, \<open>a = 0\<close>, \<open>atan2 (0, 1) = 0\<close>, and 0 is rounded to 0.
\<close>

lemma calculateDistance_refl: "calculateDistance M p p = Some 0"
proof -
  obtain k where k: "\<And>x. toRad (Some x) = Number (x * k)"
    using toRad_Some by blast
  have z: "toRad (Some 0) = Some 0" by (simp add: k Number_0)
  have "\<exists>v. Math_cos M (toRad (Some x)) = Some v" for x
    by (simp add: k Number_def Math_cos_def)
  then obtain c1 where c1: "Math_cos M (toRad (Some (latitude p))) = Some c1"
    by blast
  have h: "js_div (Some 0) (Some 2) = Some 0"
    by (simp add: js_div_def js_arith_def Number_0)
  have s: "Math_sin M (Some 0) = Some 0" by (simp add: Math_sin_def)
  have m: "js_mul (Some 0) (Some b) = Some 0" for b
    by (simp add: js_mul_def js_arith_def Number_0)
  have a: "js_add (Some 0) (Some 0) = Some 0"
    by (simp add: js_add_def js_arith_def Number_0)
  have q0: "Math_sqrt (Some 0) = Some 0" by (simp add: Math_sqrt_def Number_0)
  have one: "js_sub (Some 1) (Some 0) = Some 1"
    using MAX_VALUE_ge by (simp add: js_sub_def js_arith_def Number_1)
  have q1: "Math_sqrt (Some 1) = Some 1" by (simp add: Math_sqrt_def Number_1)
  have t: "Math_atan2 M (Some 0) (Some 1) = Some 0" by (simp add: Math_atan2_def)
  have m2: "js_mul (Some b) (Some 0) = Some 0" for b
    by (simp add: js_mul_def js_arith_def Number_0)
  have r: "Math_round (Some 0) = Some 0" by (simp add: Math_round_def)
  have d: "js_div (Some 0) (Some 10) = Some 0"
    by (simp add: js_div_def js_arith_def Number_0)
  show ?thesis
    unfolding calculateDistance_def Let_def js_sub_0 z h s m c1 a q0 one q1 t m2 r d ..
qed

text \<open>
  The evaluations: the term \<open>a\<close> at the antipodal points \<open>(8, 0)\<close> and \<open>(-8, 180)\<close>,
  and the distance of \<open>(16.7392, -5.880820919651748)\<close> and \<open>(37.117, -18.8527)\<close> in
  both directions, operation by operation.
\<close>

lemma haversine_a_antipodal:
  "haversine_a sampled \<lparr>latitude = 8, longitude = 0\<rparr> \<lparr>latitude = (- 8), longitude = 180\<rparr> = Some (4503599627370497 / 4503599627370496)"
proof -
  have a1: "js_div (Some (884279719003555 / 281474976710656)) (Some 180) = Some (5030569068109113 / 288230376151711744)"
    unfolding js_div_Some
    by (rule Number_eval [where e = "(- 6)" and m = "5030569068109113"])
       (simp_all add: round_even_def power_int_minus emin_def)
  have a2: "js_sub (Some (- 8)) (Some 8) = Some (- 16)"
    by (rule js_sub_eval [where e = "4" and m = "(- 4503599627370496)"])
       (simp_all add: round_even_def power_int_minus emin_def)
  have a3: "js_mul (Some (- 16)) (Some (5030569068109113 / 288230376151711744)) = Some (- 5030569068109113 / 18014398509481984)"
    unfolding js_mul_Some
    by (rule Number_eval [where e = "(- 2)" and m = "(- 5030569068109113)"])
       (simp_all add: round_even_def power_int_minus emin_def)
  have a4: "js_sub (Some 180) (Some 0) = Some 180"
    by (rule js_sub_eval [where e = "7" and m = "6333186975989760"])
       (simp_all add: round_even_def power_int_minus emin_def)
  have a5: "js_mul (Some 180) (Some (5030569068109113 / 288230376151711744)) = Some (884279719003555 / 281474976710656)"
    unfolding js_mul_Some
    by (rule Number_eval [where e = "1" and m = "7074237752028440"])
       (simp_all add: round_even_def power_int_minus emin_def)
  have a6: "js_mul (Some 8) (Some (5030569068109113 / 288230376151711744)) = Some (5030569068109113 / 36028797018963968)"
    unfolding js_mul_Some
    by (rule Number_eval [where e = "(- 3)" and m = "5030569068109113"])
       (simp_all add: round_even_def power_int_minus emin_def)
  have a7: "js_mul (Some (- 8)) (Some (5030569068109113 / 288230376151711744)) = Some (- 5030569068109113 / 36028797018963968)"
    unfolding js_mul_Some
    by (rule Number_eval [where e = "(- 3)" and m = "(- 5030569068109113)"])
       (simp_all add: round_even_def power_int_minus emin_def)
  have a8: "js_div (Some (- 5030569068109113 / 18014398509481984)) (Some 2) = Some (- 5030569068109113 / 36028797018963968)"
    unfolding js_div_Some
    by (rule Number_eval [where e = "(- 3)" and m = "(- 5030569068109113)"])
       (simp_all add: round_even_def power_int_minus emin_def)
  have a9: "js_div (Some (884279719003555 / 281474976710656)) (Some 2) = Some (884279719003555 / 562949953421312)"
    unfolding js_div_Some
    by (rule Number_eval [where e = "0" and m = "7074237752028440"])
       (simp_all add: round_even_def power_int_minus emin_def)
  have a10: "Math_sin sampled (Some (- 5030569068109113 / 36028797018963968)) = Some (- 5014239404989977 / 36028797018963968)"
    by (simp add: Math_sin_def sampled_def lookup_def)
  have a11: "Math_sin sampled (Some (884279719003555 / 562949953421312)) = Some 1"
    by (simp add: Math_sin_def sampled_def lookup_def)
  have a12: "Math_cos sampled (Some (5030569068109113 / 36028797018963968)) = Some (4459770905381437 / 4503599627370496)"
    by (simp add: Math_cos_def sampled_def lookup_def)
  have a13: "Math_cos sampled (Some (- 5030569068109113 / 36028797018963968)) = Some (4459770905381437 / 4503599627370496)"
    by (simp add: Math_cos_def sampled_def lookup_def)
  have a14: "js_mul (Some (- 5014239404989977 / 36028797018963968)) (Some (- 5014239404989977 / 36028797018963968)) = Some (1395694493897217 / 72057594037927936)"
    unfolding js_mul_Some
    by (rule Number_eval [where e = "(- 6)" and m = "5582777975588868"])
       (simp_all add: round_even_def power_int_minus emin_def)
  have a15: "js_mul (Some 1) (Some 1) = Some 1"
    unfolding js_mul_Some
    by (rule Number_eval [where e = "0" and m = "4503599627370496"])
       (simp_all add: round_even_def power_int_minus emin_def)
  have a16: "js_mul (Some 1) (Some (4459770905381437 / 4503599627370496)) = Some (4459770905381437 / 4503599627370496)"
    unfolding js_mul_Some
    by (rule Number_eval [where e = "(- 1)" and m = "8919541810762874"])
       (simp_all add: round_even_def power_int_minus emin_def)
  have a17: "js_mul (Some (4459770905381437 / 4503599627370496)) (Some (4459770905381437 / 4503599627370496)) = Some (8832737443003841 / 9007199254740992)"
    unfolding js_mul_Some
    by (rule Number_eval [where e = "(- 1)" and m = "8832737443003841"])
       (simp_all add: round_even_def power_int_minus emin_def)
  have a18: "js_add (Some (1395694493897217 / 72057594037927936)) (Some (8832737443003841 / 9007199254740992)) = Some (4503599627370497 / 4503599627370496)"
    unfolding js_add_Some
    by (rule Number_eval [where e = "0" and m = "4503599627370497"])
       (simp_all add: round_even_def power_int_minus emin_def)
  show ?thesis
    by (simp only: haversine_a_def Let_def toRad_def Math_PI_def LocationCoordinates.simps a1 a2 a3 a4 a5 a6 a7 a8 a9 a10 a11 a12 a13 a14 a15 a16 a17 a18)
qed

lemma calculateDistance_forward:
  "calculateDistance sampled \<lparr>latitude = (4711665930155013 / 281474976710656), longitude = (- 6621215725594057 / 1125899906842624)\<rparr> \<lparr>latitude = (5223753355284709 / 140737488355328), longitude = (- 663320411679123 / 35184372088832)\<rparr> = Some (2857850622915379 / 1099511627776)"
proof -
  have f1: "js_div (Some (884279719003555 / 281474976710656)) (Some 180) = Some (5030569068109113 / 288230376151711744)"
    unfolding js_div_Some
    by (rule Number_eval [where e = "(- 6)" and m = "5030569068109113"])
       (simp_all add: round_even_def power_int_minus emin_def)
  have f2: "js_sub (Some (5223753355284709 / 140737488355328)) (Some (4711665930155013 / 281474976710656)) = Some (5735840780414405 / 281474976710656)"
    by (rule js_sub_eval [where e = "4" and m = "5735840780414405"])
       (simp_all add: round_even_def power_int_minus emin_def)
  have f3: "js_mul (Some (5735840780414405 / 281474976710656)) (Some (5030569068109113 / 288230376151711744)) = Some (6406995647257117 / 18014398509481984)"
    unfolding js_mul_Some
    by (rule Number_eval [where e = "(- 2)" and m = "6406995647257117"])
       (simp_all add: round_even_def power_int_minus emin_def)
  have f4: "js_sub (Some (- 663320411679123 / 35184372088832)) (Some (- 6621215725594057 / 1125899906842624)) = Some (- 1825629681017235 / 140737488355328)"
    by (rule js_sub_eval [where e = "3" and m = "(- 7302518724068940)"])
       (simp_all add: round_even_def power_int_minus emin_def)
  have f5: "js_mul (Some (- 1825629681017235 / 140737488355328)) (Some (5030569068109113 / 288230376151711744)) = Some (- 4078495853553225 / 18014398509481984)"
    unfolding js_mul_Some
    by (rule Number_eval [where e = "(- 3)" and m = "(- 8156991707106450)"])
       (simp_all add: round_even_def power_int_minus emin_def)
  have f6: "js_mul (Some (4711665930155013 / 281474976710656)) (Some (5030569068109113 / 288230376151711744)) = Some (2631490679527877 / 9007199254740992)"
    unfolding js_mul_Some
    by (rule Number_eval [where e = "(- 2)" and m = "5262981359055754"])
       (simp_all add: round_even_def power_int_minus emin_def)
  have f7: "js_mul (Some (5223753355284709 / 140737488355328)) (Some (5030569068109113 / 288230376151711744)) = Some (5834988503156435 / 9007199254740992)"
    unfolding js_mul_Some
    by (rule Number_eval [where e = "(- 1)" and m = "5834988503156435"])
       (simp_all add: round_even_def power_int_minus emin_def)
  have f8: "js_div (Some (6406995647257117 / 18014398509481984)) (Some 2) = Some (6406995647257117 / 36028797018963968)"
    unfolding js_div_Some
    by (rule Number_eval [where e = "(- 3)" and m = "6406995647257117"])
       (simp_all add: round_even_def power_int_minus emin_def)
  have f9: "js_div (Some (- 4078495853553225 / 18014398509481984)) (Some 2) = Some (- 4078495853553225 / 36028797018963968)"
    unfolding js_div_Some
    by (rule Number_eval [where e = "(- 4)" and m = "(- 8156991707106450)"])
       (simp_all add: round_even_def power_int_minus emin_def)
  have f10: "Math_sin sampled (Some (6406995647257117 / 36028797018963968)) = Some (3186640221583979 / 18014398509481984)"
    by (simp add: Math_sin_def sampled_def lookup_def)
  have f11: "Math_sin sampled (Some (- 4078495853553225 / 36028797018963968)) = Some (- 4069790808261309 / 36028797018963968)"
    by (simp add: Math_sin_def sampled_def lookup_def)
  have f12: "Math_cos sampled (Some (2631490679527877 / 9007199254740992)) = Some (8625525198714103 / 9007199254740992)"
    by (simp add: Math_cos_def sampled_def lookup_def)
  have f13: "Math_cos sampled (Some (5834988503156435 / 9007199254740992)) = Some (7182384985907031 / 9007199254740992)"
    by (simp add: Math_cos_def sampled_def lookup_def)
  have f14: "js_mul (Some (3186640221583979 / 18014398509481984)) (Some (3186640221583979 / 18014398509481984)) = Some (4509581997521291 / 144115188075855872)"
    unfolding js_mul_Some
    by (rule Number_eval [where e = "(- 5)" and m = "4509581997521291"])
       (simp_all add: round_even_def power_int_minus emin_def)
  have f15: "js_mul (Some (- 4069790808261309 / 36028797018963968)) (Some (- 4069790808261309 / 36028797018963968)) = Some (114930268239945 / 9007199254740992)"
    unfolding js_mul_Some
    by (rule Number_eval [where e = "(- 7)" and m = "7355537167356480"])
       (simp_all add: round_even_def power_int_minus emin_def)
  have f16: "js_mul (Some (114930268239945 / 9007199254740992)) (Some (8625525198714103 / 9007199254740992)) = Some (3521925594891033 / 288230376151711744)"
    unfolding js_mul_Some
    by (rule Number_eval [where e = "(- 7)" and m = "7043851189782066"])
       (simp_all add: round_even_def power_int_minus emin_def)
  have f17: "js_mul (Some (3521925594891033 / 288230376151711744)) (Some (7182384985907031 / 9007199254740992)) = Some (5616801582559071 / 576460752303423488)"
    unfolding js_mul_Some
    by (rule Number_eval [where e = "(- 7)" and m = "5616801582559071"])
       (simp_all add: round_even_def power_int_minus emin_def)
  have f18: "js_add (Some (4509581997521291 / 144115188075855872)) (Some (5616801582559071 / 576460752303423488)) = Some (5913782393161059 / 144115188075855872)"
    unfolding js_add_Some
    by (rule Number_eval [where e = "(- 5)" and m = "5913782393161059"])
       (simp_all add: round_even_def power_int_minus emin_def)
  have f19: "Math_sqrt (Some (5913782393161059 / 144115188075855872)) = Some (7298398205385939 / 36028797018963968)"
    by (rule Math_sqrt_eval [where e = "(- 3)" and m = "7298398205385939"])
       (simp_all add: power_int_minus power2_eq_square emin_def)
  have f20: "js_sub (Some 1) (Some (5913782393161059 / 144115188075855872)) = Some (4318793927584213 / 4503599627370496)"
    by (rule js_sub_eval [where e = "(- 1)" and m = "8637587855168426"])
       (simp_all add: round_even_def power_int_minus emin_def)
  have f21: "Math_sqrt (Some (4318793927584213 / 4503599627370496)) = Some (275639304638427 / 281474976710656)"
    by (rule Math_sqrt_eval [where e = "(- 1)" and m = "8820457748429664"])
       (simp_all add: power_int_minus power2_eq_square emin_def)
  have f22: "Math_atan2 sampled (Some (7298398205385939 / 36028797018963968)) (Some (275639304638427 / 281474976710656)) = Some (229664318228693 / 1125899906842624)"
    by (simp add: Math_atan2_def sampled_def lookup_def)
  have f23: "js_mul (Some 2) (Some (229664318228693 / 1125899906842624)) = Some (229664318228693 / 562949953421312)"
    unfolding js_mul_Some
    by (rule Number_eval [where e = "(- 2)" and m = "7349258183318176"])
       (simp_all add: round_even_def power_int_minus emin_def)
  have f24: "js_mul (Some 6371) (Some (229664318228693 / 562949953421312)) = Some (5715591294667981 / 2199023255552)"
    unfolding js_mul_Some
    by (rule Number_eval [where e = "11" and m = "5715591294667981"])
       (simp_all add: round_even_def power_int_minus emin_def)
  have f25: "js_mul (Some (5715591294667981 / 2199023255552)) (Some 10) = Some (51983 / 2)"
    unfolding js_mul_Some
    by (rule Number_eval [where e = "14" and m = "7144489118334976"])
       (simp_all add: round_even_def power_int_minus emin_def)
  have f26: "Math_round (Some (51983 / 2)) = Some 25992"
    by (simp add: Math_round_def)
  have f27: "js_div (Some 25992) (Some 10) = Some (2857850622915379 / 1099511627776)"
    unfolding js_div_Some
    by (rule Number_eval [where e = "11" and m = "5715701245830758"])
       (simp_all add: round_even_def power_int_minus emin_def)
  show ?thesis
    by (simp only: calculateDistance_def Let_def toRad_def Math_PI_def LocationCoordinates.simps f1 f2 f3 f4 f5 f6 f7 f8 f9 f10 f11 f12 f13 f14 f15 f16 f17 f18 f19 f20 f21 f22 f23 f24 f25 f26 f27)
qed

lemma calculateDistance_backward:
  "calculateDistance sampled \<lparr>latitude = (5223753355284709 / 140737488355328), longitude = (- 663320411679123 / 35184372088832)\<rparr> \<lparr>latitude = (4711665930155013 / 281474976710656), longitude = (- 6621215725594057 / 1125899906842624)\<rparr> = Some (5715481343505203 / 2199023255552)"
proof -
  have f1: "js_div (Some (884279719003555 / 281474976710656)) (Some 180) = Some (5030569068109113 / 288230376151711744)"
    unfolding js_div_Some
    by (rule Number_eval [where e = "(- 6)" and m = "5030569068109113"])
       (simp_all add: round_even_def power_int_minus emin_def)
  have f2: "js_sub (Some (4711665930155013 / 281474976710656)) (Some (5223753355284709 / 140737488355328)) = Some (- 5735840780414405 / 281474976710656)"
    by (rule js_sub_eval [where e = "4" and m = "(- 5735840780414405)"])
       (simp_all add: round_even_def power_int_minus emin_def)
  have f3: "js_mul (Some (- 5735840780414405 / 281474976710656)) (Some (5030569068109113 / 288230376151711744)) = Some (- 6406995647257117 / 18014398509481984)"
    unfolding js_mul_Some
    by (rule Number_eval [where e = "(- 2)" and m = "(- 6406995647257117)"])
       (simp_all add: round_even_def power_int_minus emin_def)
  have f4: "js_sub (Some (- 6621215725594057 / 1125899906842624)) (Some (- 663320411679123 / 35184372088832)) = Some (1825629681017235 / 140737488355328)"
    by (rule js_sub_eval [where e = "3" and m = "7302518724068940"])
       (simp_all add: round_even_def power_int_minus emin_def)
  have f5: "js_mul (Some (1825629681017235 / 140737488355328)) (Some (5030569068109113 / 288230376151711744)) = Some (4078495853553225 / 18014398509481984)"
    unfolding js_mul_Some
    by (rule Number_eval [where e = "(- 3)" and m = "8156991707106450"])
       (simp_all add: round_even_def power_int_minus emin_def)
  have f6: "js_mul (Some (5223753355284709 / 140737488355328)) (Some (5030569068109113 / 288230376151711744)) = Some (5834988503156435 / 9007199254740992)"
    unfolding js_mul_Some
    by (rule Number_eval [where e = "(- 1)" and m = "5834988503156435"])
       (simp_all add: round_even_def power_int_minus emin_def)
  have f7: "js_mul (Some (4711665930155013 / 281474976710656)) (Some (5030569068109113 / 288230376151711744)) = Some (2631490679527877 / 9007199254740992)"
    unfolding js_mul_Some
    by (rule Number_eval [where e = "(- 2)" and m = "5262981359055754"])
       (simp_all add: round_even_def power_int_minus emin_def)
  have f8: "js_div (Some (- 6406995647257117 / 18014398509481984)) (Some 2) = Some (- 6406995647257117 / 36028797018963968)"
    unfolding js_div_Some
    by (rule Number_eval [where e = "(- 3)" and m = "(- 6406995647257117)"])
       (simp_all add: round_even_def power_int_minus emin_def)
  have f9: "js_div (Some (4078495853553225 / 18014398509481984)) (Some 2) = Some (4078495853553225 / 36028797018963968)"
    unfolding js_div_Some
    by (rule Number_eval [where e = "(- 4)" and m = "8156991707106450"])
       (simp_all add: round_even_def power_int_minus emin_def)
  have f10: "Math_sin sampled (Some (- 6406995647257117 / 36028797018963968)) = Some (- 3186640221583979 / 18014398509481984)"
    by (simp add: Math_sin_def sampled_def lookup_def)
  have f11: "Math_sin sampled (Some (4078495853553225 / 36028797018963968)) = Some (4069790808261309 / 36028797018963968)"
    by (simp add: Math_sin_def sampled_def lookup_def)
  have f12: "Math_cos sampled (Some (5834988503156435 / 9007199254740992)) = Some (7182384985907031 / 9007199254740992)"
    by (simp add: Math_cos_def sampled_def lookup_def)
  have f13: "Math_cos sampled (Some (2631490679527877 / 9007199254740992)) = Some (8625525198714103 / 9007199254740992)"
    by (simp add: Math_cos_def sampled_def lookup_def)
  have f14: "js_mul (Some (- 3186640221583979 / 18014398509481984)) (Some (- 3186640221583979 / 18014398509481984)) = Some (4509581997521291 / 144115188075855872)"
    unfolding js_mul_Some
    by (rule Number_eval [where e = "(- 5)" and m = "4509581997521291"])
       (simp_all add: round_even_def power_int_minus emin_def)
  have f15: "js_mul (Some (4069790808261309 / 36028797018963968)) (Some (4069790808261309 / 36028797018963968)) = Some (114930268239945 / 9007199254740992)"
    unfolding js_mul_Some
    by (rule Number_eval [where e = "(- 7)" and m = "7355537167356480"])
       (simp_all add: round_even_def power_int_minus emin_def)
  have f16: "js_mul (Some (114930268239945 / 9007199254740992)) (Some (7182384985907031 / 9007199254740992)) = Some (5865341514044421 / 576460752303423488)"
    unfolding js_mul_Some
    by (rule Number_eval [where e = "(- 7)" and m = "5865341514044421"])
       (simp_all add: round_even_def power_int_minus emin_def)
  have f17: "js_mul (Some (5865341514044421 / 576460752303423488)) (Some (8625525198714103 / 9007199254740992)) = Some (2808400791279535 / 288230376151711744)"
    unfolding js_mul_Some
    by (rule Number_eval [where e = "(- 7)" and m = "5616801582559070"])
       (simp_all add: round_even_def power_int_minus emin_def)
  have f18: "js_add (Some (4509581997521291 / 144115188075855872)) (Some (2808400791279535 / 288230376151711744)) = Some (2956891196580529 / 72057594037927936)"
    unfolding js_add_Some
    by (rule Number_eval [where e = "(- 5)" and m = "5913782393161058"])
       (simp_all add: round_even_def power_int_minus emin_def)
  have f19: "Math_sqrt (Some (2956891196580529 / 72057594037927936)) = Some (3649199102692969 / 18014398509481984)"
    by (rule Math_sqrt_eval [where e = "(- 3)" and m = "7298398205385938"])
       (simp_all add: power_int_minus power2_eq_square emin_def)
  have f20: "js_sub (Some 1) (Some (2956891196580529 / 72057594037927936)) = Some (4318793927584213 / 4503599627370496)"
    by (rule js_sub_eval [where e = "(- 1)" and m = "8637587855168426"])
       (simp_all add: round_even_def power_int_minus emin_def)
  have f21: "Math_sqrt (Some (4318793927584213 / 4503599627370496)) = Some (275639304638427 / 281474976710656)"
    by (rule Math_sqrt_eval [where e = "(- 1)" and m = "8820457748429664"])
       (simp_all add: power_int_minus power2_eq_square emin_def)
  have f22: "Math_atan2 sampled (Some (3649199102692969 / 18014398509481984)) (Some (275639304638427 / 281474976710656)) = Some (7349258183318175 / 36028797018963968)"
    by (simp add: Math_atan2_def sampled_def lookup_def)
  have f23: "js_mul (Some 2) (Some (7349258183318175 / 36028797018963968)) = Some (7349258183318175 / 18014398509481984)"
    unfolding js_mul_Some
    by (rule Number_eval [where e = "(- 2)" and m = "7349258183318175"])
       (simp_all add: round_even_def power_int_minus emin_def)
  have f24: "js_mul (Some 6371) (Some (7349258183318175 / 18014398509481984)) = Some (1428897823666995 / 549755813888)"
    unfolding js_mul_Some
    by (rule Number_eval [where e = "11" and m = "5715591294667980"])
       (simp_all add: round_even_def power_int_minus emin_def)
  have f25: "js_mul (Some (1428897823666995 / 549755813888)) (Some 10) = Some (7144489118334975 / 274877906944)"
    unfolding js_mul_Some
    by (rule Number_eval [where e = "14" and m = "7144489118334975"])
       (simp_all add: round_even_def power_int_minus emin_def)
  have f26: "Math_round (Some (7144489118334975 / 274877906944)) = Some 25991"
    by (simp add: Math_round_def)
  have f27: "js_div (Some 25991) (Some 10) = Some (5715481343505203 / 2199023255552)"
    unfolding js_div_Some
    by (rule Number_eval [where e = "11" and m = "5715481343505203"])
       (simp_all add: round_even_def power_int_minus emin_def)
  show ?thesis
    by (simp only: calculateDistance_def Let_def toRad_def Math_PI_def LocationCoordinates.simps f1 f2 f3 f4 f5 f6 f7 f8 f9 f10 f11 f12 f13 f14 f15 f16 f17 f18 f19 f20 f21 f22 f23 f24 f25 f26 f27)
qed

lemma tenth_25992:
  "js_div (Some 25992) (Some 10) = Some (2857850622915379 / 1099511627776)"
  unfolding js_div_Some
  by (rule Number_eval [where e = "11" and m = "5715701245830758"])
     (simp_all add: round_even_def power_int_minus emin_def)

lemma tenth_25991:
  "js_div (Some 25991) (Some 10) = Some (5715481343505203 / 2199023255552)"
  unfolding js_div_Some
  by (rule Number_eval [where e = "11" and m = "5715481343505203"])
     (simp_all add: round_even_def power_int_minus emin_def)

text \<open>
  C3. \<open>isWithinRadius(a, b, d)\<close> is true exactly when \<open>calculateDistance(a, b) <= d\<close>,
  a comparison that is false when the distance is \<open>NaN\<close>; a distance equal to the radius
  counts as within. This holds whatever the approximated functions return.
\<close>

theorem isWithinRadius_iff_distance_le:
  "(isWithinRadius M a b d \<longleftrightarrow> (\<exists>x. calculateDistance M a b = Some x \<and> x \<le> d)) \<and>
   (calculateDistance M a b = Some d \<longrightarrow> isWithinRadius M a b d)"
  by (simp add: isWithinRadius_def js_le_def split: option.splits)

theorem isWithinRadius_iff_distance_le_witness:
  "calculateDistance sampled \<lparr>latitude = 0, longitude = 0\<rparr> \<lparr>latitude = 0, longitude = 0\<rparr> = Some 0 \<and>
   isWithinRadius sampled \<lparr>latitude = 0, longitude = 0\<rparr> \<lparr>latitude = 0, longitude = 0\<rparr> 0"
  using isWithinRadius_iff_distance_le
          [of sampled "\<lparr>latitude = 0, longitude = 0\<rparr>" "\<lparr>latitude = 0, longitude = 0\<rparr>" 0]
  by (simp add: calculateDistance_refl)

text \<open>
  C7. The distance of a point to itself is \<open>0.0\<close>, in double arithmetic and whatever the
  approximated functions return.
\<close>

theorem calculateDistance_same_point: "calculateDistance M p p = Some 0"
  by (rule calculateDistance_refl)

text \<open>
  C4. The claim: for all finite coordinates \<open>calculateDistance\<close> returns the Haversine
  distance, rounded to one decimal. The source computes \<open>Math.sqrt(1 - a)\<close> without
  clamping \<open>a\<close> to 1: whenever the computed \<open>a\<close> is a double above 1 the function
  returns \<open>NaN\<close>. That happens at the antipodal points \<open>(8, 0)\<close> and \<open>(-8, 180)\<close>,
  where \<open>a = 1.0000000000000002\<close> and the distance should be about 20015.1 km.
\<close>

theorem calculateDistance_NaN:
  assumes "haversine_a M c1 c2 = Some x" "1 + 1 / 2 ^ 52 \<le> x"
  shows "calculateDistance M c1 c2 = None"
  using assms by (rule calculateDistance_above_one)

theorem calculateDistance_NaN_witness:
  "haversine_a sampled \<lparr>latitude = 8, longitude = 0\<rparr> \<lparr>latitude = (- 8), longitude = 180\<rparr> = Some (1 + 1 / 2 ^ 52) \<and>
   calculateDistance sampled \<lparr>latitude = 8, longitude = 0\<rparr> \<lparr>latitude = (- 8), longitude = 180\<rparr> = None"
proof -
  have h: "haversine_a sampled \<lparr>latitude = 8, longitude = 0\<rparr> \<lparr>latitude = (- 8), longitude = 180\<rparr> = Some (1 + 1 / 2 ^ 52)"
    using haversine_a_antipodal by simp
  show ?thesis
    using h calculateDistance_NaN [OF h] by simp
qed

text \<open>
  C9. The claim: for latitudes in \<open>[-90, 90]\<close> \<open>calculateDistance\<close> returns a nonnegative
  number. The source does not clamp \<open>a\<close> to 1: whenever the computed \<open>a\<close> is a double
  above 1 the result is \<open>NaN\<close>, not a nonnegative number (and \<open>isWithinRadius\<close> is false
  for every radius); the latitudes 8 and -8 of the antipodal points above are in range.
\<close>

theorem calculateDistance_not_nonnegative:
  assumes "haversine_a M a b = Some x" "1 + 1 / 2 ^ 52 \<le> x"
  shows "\<not> (\<exists>d. calculateDistance M a b = Some d \<and> 0 \<le> d) \<and> \<not> isWithinRadius M a b r"
  using calculateDistance_above_one [OF assms]
  by (simp add: isWithinRadius_def js_le_def)

theorem calculateDistance_not_nonnegative_witness:
  "- 90 \<le> latitude \<lparr>latitude = 8, longitude = 0\<rparr> \<and> latitude \<lparr>latitude = 8, longitude = 0\<rparr> \<le> 90 \<and>
   - 90 \<le> latitude \<lparr>latitude = (- 8), longitude = 180\<rparr> \<and> latitude \<lparr>latitude = (- 8), longitude = 180\<rparr> \<le> 90 \<and>
   \<not> (\<exists>d. calculateDistance sampled \<lparr>latitude = 8, longitude = 0\<rparr> \<lparr>latitude = (- 8), longitude = 180\<rparr> = Some d \<and> 0 \<le> d) \<and>
   \<not> isWithinRadius sampled \<lparr>latitude = 8, longitude = 0\<rparr> \<lparr>latitude = (- 8), longitude = 180\<rparr> 50000"
proof -
  have h: "haversine_a sampled \<lparr>latitude = 8, longitude = 0\<rparr> \<lparr>latitude = (- 8), longitude = 180\<rparr> = Some (1 + 1 / 2 ^ 52)"
    using haversine_a_antipodal by simp
  show ?thesis
    using calculateDistance_not_nonnegative [OF h, of 50000] by simp
qed

text \<open>
  C8. The claim: \<open>calculateDistance(a, b) = calculateDistance(b, a)\<close>. The source
  multiplies \<open>sin\<^sup>2 (dLon / 2)\<close> by \<open>cos lat1\<close> and then by \<open>cos lat2\<close>; swapping the
  points swaps the two factors, and the rounded products differ. From
  \<open>(16.7392, -5.880820919651748)\<close> to \<open>(37.117, -18.8527)\<close> the result is
  \<open>25992 / 10 = 2599.2\<close>, in the other direction \<open>25991 / 10 = 2599.1\<close>.
\<close>

theorem calculateDistance_asymmetric:
  "calculateDistance sampled
     \<lparr>latitude = (4711665930155013 / 281474976710656),
      longitude = (- 6621215725594057 / 1125899906842624)\<rparr>
     \<lparr>latitude = (5223753355284709 / 140737488355328),
      longitude = (- 663320411679123 / 35184372088832)\<rparr> = js_div (Some 25992) (Some 10) \<and>
   calculateDistance sampled
     \<lparr>latitude = (5223753355284709 / 140737488355328),
      longitude = (- 663320411679123 / 35184372088832)\<rparr>
     \<lparr>latitude = (4711665930155013 / 281474976710656),
      longitude = (- 6621215725594057 / 1125899906842624)\<rparr> = js_div (Some 25991) (Some 10) \<and>
   js_div (Some 25992) (Some 10) \<noteq> js_div (Some 25991) (Some 10)"
  unfolding calculateDistance_forward calculateDistance_backward tenth_25992 tenth_25991
  by simp

section \<open>Properties of the worker search\<close>

text \<open>Each stage is a filter by a predicate on one worker, true when the stage is off.\<close>

lemma byProfession_filter:
  "byProfession sel =
     filter (\<lambda>w. case truthy sel of Some p \<Rightarrow> profession w = p | None \<Rightarrow> True)"
  by (rule ext) (simp add: byProfession_def split: option.splits)

lemma byQuery_filter:
  "byQuery q =
     filter (\<lambda>w. q = [] \<or> string_includes (name w) q \<or> string_includes (profession w) q \<or>
                  list_ex (\<lambda>tag. string_includes tag q) (tags w))"
  by (rule ext) (simp add: byQuery_def)

lemma byDistance_filter:
  "byDistance M loc d =
     filter (\<lambda>w. case loc of
                    Some origin \<Rightarrow> js_le (calculateDistance M origin (location w)) d
                  | None \<Rightarrow> True)"
  by (rule ext) (simp add: byDistance_def split: option.splits)

lemmas stage_filter = byProfession_filter byQuery_filter byDistance_filter

lemma filterWorkers_stages:
  "filterWorkers M q sel d loc ws = byDistance M loc d (byQuery q (byProfession sel ws))"
  by (simp add: filterWorkers_def)

text \<open>
  C2. The profession, text and radius filters give the same list, hence the same set, in
  each of the five other orders as in the order profession, text, radius of the code.
\<close>

theorem filters_commute:
  "byDistance M loc d (byProfession sel (byQuery q ws)) = filterWorkers M q sel d loc ws \<and>
   byQuery q (byDistance M loc d (byProfession sel ws)) = filterWorkers M q sel d loc ws \<and>
   byProfession sel (byDistance M loc d (byQuery q ws)) = filterWorkers M q sel d loc ws \<and>
   byProfession sel (byQuery q (byDistance M loc d ws)) = filterWorkers M q sel d loc ws \<and>
   byQuery q (byProfession sel (byDistance M loc d ws)) = filterWorkers M q sel d loc ws"
  unfolding filterWorkers_stages stage_filter by (auto intro: filter_cong)

text \<open>
  C10. The filtered list is a subsequence of the worker list: every element comes from
  the input, in the input's order, none repeated or made up; with no profession selected,
  an empty query and no user location it is the input itself.
\<close>

theorem filterWorkers_subseq:
  "subseq (filterWorkers M q sel d loc ws) ws \<and>
   set (filterWorkers M q sel d loc ws) \<subseteq> set ws \<and>
   (truthy sel = None \<and> q = [] \<and> loc = None \<longrightarrow> filterWorkers M q sel d loc ws = ws)"
proof -
  have "subseq (filterWorkers M q sel d loc ws) ws"
    unfolding filterWorkers_stages stage_filter by (simp add: subseq_filter_left)
  moreover have "set (filterWorkers M q sel d loc ws) \<subseteq> set ws"
    unfolding filterWorkers_stages stage_filter by auto
  moreover have "truthy sel = None \<and> q = [] \<and> loc = None \<longrightarrow> filterWorkers M q sel d loc ws = ws"
    by (simp add: filterWorkers_def byProfession_def byQuery_def byDistance_def)
  ultimately show ?thesis by blast
qed

theorem filterWorkers_subseq_witness:
  "truthy None = None \<and>
   filterWorkers sampled [] None 50
     None
     [\<lparr>id = ''1'', name = ''Ahmed'', profession = ''electrician'',
        location = \<lparr>latitude = 24.75, longitude = 46.625\<rparr>, tags = [''repair'']\<rparr>,
      \<lparr>id = ''2'', name = ''Fatima'', profession = ''hairdresser'',
        location = \<lparr>latitude = 24.625, longitude = 46.75\<rparr>, tags = [''styling'']\<rparr>] =
     [\<lparr>id = ''1'', name = ''Ahmed'', profession = ''electrician'',
        location = \<lparr>latitude = 24.75, longitude = 46.625\<rparr>, tags = [''repair'']\<rparr>,
      \<lparr>id = ''2'', name = ''Fatima'', profession = ''hairdresser'',
        location = \<lparr>latitude = 24.625, longitude = 46.75\<rparr>, tags = [''styling'']\<rparr>]"
  using filterWorkers_subseq
          [of sampled "[]" None 50 None
              "[\<lparr>id = ''1'', name = ''Ahmed'', profession = ''electrician'',
                  location = \<lparr>latitude = 24.75, longitude = 46.625\<rparr>, tags = [''repair'']\<rparr>,
                \<lparr>id = ''2'', name = ''Fatima'', profession = ''hairdresser'',
                  location = \<lparr>latitude = 24.625, longitude = 46.75\<rparr>, tags = [''styling'']\<rparr>]"]
  by (simp add: truthy_def)

section \<open>Properties of the OAuth handshake\<close>

lemma handleLogin_success:
  "os \<noteq> web \<Longrightarrow> u \<noteq> [] \<Longrightarrow>
   handleLogin newURL os \<lparr>type = success, url = Some u\<rparr> = callback newURL u"
  by (simp add: handleLogin_def truthy_def)

lemma callback_throws: "newURL (urlStr u) = None \<Longrightarrow> callback newURL u = fallback u"
  by (simp add: callback_def)

text \<open>On a URL that parses, a non-empty \<open>error\<close> parameter ends the attempt.\<close>

lemma callback_error_param:
  "newURL (urlStr u) = Some ps \<Longrightarrow> searchParams_get ps ''error'' = Some e \<Longrightarrow> e \<noteq> [] \<Longrightarrow>
   callback newURL u = Failed (OAuthError e)"
  by (simp add: callback_def truthy_def)

text \<open>The regular expression finds the leftmost match, or none where there is none.\<close>

lemma regex_param_head:
  "regex_param n (c # cs) =
     (if match_at n (c # cs) then Some (takeWhile (\<lambda>x. x \<noteq> CHR ''&'') (drop (length n + 1) cs))
      else regex_param n cs)"
  by (cases "drop (length n + 1) cs") (auto simp: match_at_def Let_def)

lemma match_at_Nil: "\<not> match_at n []"
  by (simp add: match_at_def)

lemma regex_param_None: "regex_param n u = None \<longleftrightarrow> (\<forall>i. \<not> match_at n (drop i u))"
proof (induction u)
  case Nil
  then show ?case by (simp add: match_at_Nil)
next
  case (Cons c cs)
  show ?case
  proof (cases "match_at n (c # cs)")
    case True
    then have "\<not> (\<forall>i. \<not> match_at n (drop i (c # cs)))"
      by (metis drop0)
    then show ?thesis using True by (simp only: regex_param_head) simp
  next
    case False
    have "(\<forall>i. \<not> match_at n (drop i (c # cs))) \<longleftrightarrow> (\<forall>i. \<not> match_at n (drop i cs))"
    proof
      assume a: "\<forall>i. \<not> match_at n (drop i (c # cs))"
      show "\<forall>i. \<not> match_at n (drop i cs)"
      proof
        fix i show "\<not> match_at n (drop i cs)" using a [rule_format, of "Suc i"] by simp
      qed
    next
      assume a: "\<forall>i. \<not> match_at n (drop i cs)"
      show "\<forall>i. \<not> match_at n (drop i (c # cs))"
      proof
        fix i show "\<not> match_at n (drop i (c # cs))"
          using a False by (cases i) simp_all
      qed
    qed
    then show ?thesis using False Cons.IH by (simp only: regex_param_head) simp
  qed
qed

lemma regex_param_first: "first_value n u g \<Longrightarrow> regex_param n u = Some g"
proof (induction u)
  case Nil
  then show ?case by (simp add: first_value_def match_at_Nil)
next
  case (Cons c cs)
  from Cons.prems obtain i where i: "match_at n (drop i (c # cs))"
    "\<forall>j < i. \<not> match_at n (drop j (c # cs))"
    "g = takeWhile (\<lambda>x. x \<noteq> CHR ''&'') (drop (i + length n + 2) (c # cs))"
    unfolding first_value_def by blast
  show ?case
  proof (cases i)
    case 0
    then show ?thesis using i(1,3) by (simp only: regex_param_head) simp
  next
    case (Suc k)
    then have nm: "\<not> match_at n (c # cs)" using i(2) by (metis drop0 zero_less_Suc)
    have "first_value n cs g"
      unfolding first_value_def
    proof (intro exI [of _ k] conjI allI impI)
      show "match_at n (drop k cs)" using i(1) Suc by simp
      show "\<not> match_at n (drop j cs)" if "j < k" for j
        using i(2) [rule_format, of "Suc j"] that Suc by simp
      show "g = takeWhile (\<lambda>x. x \<noteq> CHR ''&'') (drop (k + length n + 2) cs)"
        using i(3) Suc by simp
    qed
    then show ?thesis using nm Cons.IH by (simp only: regex_param_head) simp
  qed
qed

text \<open>
  C5. The redirect \<open>exp://host/oauth/callback?code=ABC&state=XYZ\<close> is handed to the URL
  constructor as \<open>http://host/oauth/callback?code=ABC&state=XYZ\<close>; with a constructor that
  reads the query of that URL as \<open>code = ABC\<close>, \<open>state = XYZ\<close>, the attempt ends in
  \<open>Success\<close> with exactly these two values.
\<close>

theorem exp_redirect_reaches_callback:
  assumes "os \<noteq> web"
    and "newURL ''http://host/oauth/callback?code=ABC&state=XYZ'' =
           Some [(''code'', ''ABC''), (''state'', ''XYZ'')]"
  shows "urlStr ''exp://host/oauth/callback?code=ABC&state=XYZ'' =
           ''http://host/oauth/callback?code=ABC&state=XYZ'' \<and>
         handleLogin newURL os
           \<lparr>type = success, url = Some ''exp://host/oauth/callback?code=ABC&state=XYZ''\<rparr> =
           Success ''ABC'' ''XYZ''"
proof -
  have u: "urlStr ''exp://host/oauth/callback?code=ABC&state=XYZ'' =
             ''http://host/oauth/callback?code=ABC&state=XYZ''"
    by (simp add: urlStr_def replace_exp_def startsWith_def)
  have "callback newURL ''exp://host/oauth/callback?code=ABC&state=XYZ'' = Success ''ABC'' ''XYZ''"
    unfolding callback_def u assms(2) by (simp add: searchParams_get_def truthy_def)
  then show ?thesis
    using u handleLogin_success [OF assms(1), of "''exp://host/oauth/callback?code=ABC&state=XYZ''" newURL]
    by simp
qed

theorem exp_redirect_reaches_callback_witness:
  "ios \<noteq> web \<and>
   stdURL ''http://host/oauth/callback?code=ABC&state=XYZ'' =
     Some [(''code'', ''ABC''), (''state'', ''XYZ'')] \<and>
   handleLogin stdURL ios
     \<lparr>type = success, url = Some ''exp://host/oauth/callback?code=ABC&state=XYZ''\<rparr> =
     Success ''ABC'' ''XYZ''"
proof -
  have os: "ios \<noteq> web" by simp
  have p: "stdURL ''http://host/oauth/callback?code=ABC&state=XYZ'' =
             Some [(''code'', ''ABC''), (''state'', ''XYZ'')]"
    by code_simp
  show ?thesis
    using os p exp_redirect_reaches_callback [where os = ios and newURL = stdURL, OF os p] by simp
qed

text \<open>
  C1. A redirect with an \<open>error\<close> parameter should end in \<open>Failed\<close> whatever else it
  carries, on the fallback path too. The fallback never looks at \<open>error\<close>: on
  \<open>my_app://cb?code=A1&state=B2&error=access_denied\<close>, which the URL constructor rejects
  (an underscore is not allowed in a scheme), the attempt ends in \<open>Success\<close>.
\<close>

theorem fallback_ignores_error_param:
  "stdURL (urlStr ''my_app://cb?code=A1&state=B2&error=access_denied'') = None \<and>
   handleLogin stdURL ios
     \<lparr>type = success, url = Some ''my_app://cb?code=A1&state=B2&error=access_denied''\<rparr> =
     Success ''A1'' ''B2''"
  by code_simp

text \<open>
  C6, as stated, fails: on \<open>my_app://cb?code=A1&state=B2%\<close> the URL constructor throws and
  the text contains \<open>?code=A1&state=B2\<close>, but the captured state \<open>B2%\<close> is not a valid
  percent-encoding, \<open>decodeURIComponent\<close> throws, and the attempt ends in \<open>Failed\<close>.
\<close>

theorem fallback_malformed_escape_counterexample:
  "stdURL (urlStr ''my_app://cb?code=A1&state=B2%'') = None \<and>
   string_includes ''my_app://cb?code=A1&state=B2%'' ''?code=A1&state=B2'' \<and>
   handleLogin stdURL ios \<lparr>type = success, url = Some ''my_app://cb?code=A1&state=B2%''\<rparr> =
     Failed LoginError"
  by code_simp

text \<open>
  C6, amended. Let the URL constructor throw on a non-empty redirect \<open>u\<close>. If the text
  has a \<open>?code=\<close> or \<open>&code=\<close> and a \<open>?state=\<close> or \<open>&state=\<close>, each followed by
  a character other than \<open>&\<close>, the fallback takes for each the leftmost such place and
  the value after it up to the next \<open>&\<close> or the end of the text; if
  \<open>decodeURIComponent\<close> accepts both values the attempt ends in \<open>Success\<close> with the
  decoded values, and if it throws on one of them the attempt ends in \<open>Failed\<close>. If the
  text has no such \<open>code=\<close> or no such \<open>state=\<close>, the attempt ends in \<open>Failed\<close>.
\<close>

theorem fallback_extracts_code_and_state:
  assumes "os \<noteq> web" and "newURL (urlStr u) = None" and "u \<noteq> []"
  shows
    "(first_value ''code'' u c \<and> first_value ''state'' u s \<and>
      decodeURIComponent c = Some code \<and> decodeURIComponent s = Some state \<longrightarrow>
        handleLogin newURL os \<lparr>type = success, url = Some u\<rparr> = Success code state) \<and>
     ((\<forall>i. \<not> match_at ''code'' (drop i u)) \<or> (\<forall>i. \<not> match_at ''state'' (drop i u)) \<longrightarrow>
        handleLogin newURL os \<lparr>type = success, url = Some u\<rparr> = Failed CouldNotExtract) \<and>
     (first_value ''code'' u c \<and> first_value ''state'' u s \<and>
      (decodeURIComponent c = None \<or> decodeURIComponent s = None) \<longrightarrow>
        handleLogin newURL os \<lparr>type = success, url = Some u\<rparr> = Failed LoginError)"
proof -
  have h: "handleLogin newURL os \<lparr>type = success, url = Some u\<rparr> = fallback u"
    using handleLogin_success [OF assms(1,3)]
      callback_throws [where newURL = newURL and u = u, OF assms(2)]
    by simp
  have "fallback u = Success code state"
    if "first_value ''code'' u c" "first_value ''state'' u s"
      and "decodeURIComponent c = Some code" "decodeURIComponent s = Some state"
    using regex_param_first [OF that(1)] regex_param_first [OF that(2)] that(3,4)
    by (simp add: fallback_def)
  moreover have "fallback u = Failed CouldNotExtract"
    if "(\<forall>i. \<not> match_at ''code'' (drop i u)) \<or> (\<forall>i. \<not> match_at ''state'' (drop i u))"
  proof -
    have "regex_param ''code'' u = None \<or> regex_param ''state'' u = None"
      using that by (simp only: regex_param_None)
    then show ?thesis by (auto simp: fallback_def split: option.splits)
  qed
  moreover have "fallback u = Failed LoginError"
    if "first_value ''code'' u c" "first_value ''state'' u s"
      and "decodeURIComponent c = None \<or> decodeURIComponent s = None"
    using regex_param_first [OF that(1)] regex_param_first [OF that(2)] that(3)
    by (auto simp: fallback_def split: option.splits)
  ultimately show ?thesis unfolding h by blast
qed

theorem fallback_extracts_code_and_state_witness:
  "ios \<noteq> web \<and> stdURL (urlStr ''my_app://cb?x=1&code=A1&state=B2'') = None \<and>
   first_value ''code'' ''my_app://cb?x=1&code=A1&state=B2'' ''A1'' \<and>
   first_value ''state'' ''my_app://cb?x=1&code=A1&state=B2'' ''B2'' \<and>
   decodeURIComponent ''A1'' = Some ''A1'' \<and> decodeURIComponent ''B2'' = Some ''B2'' \<and>
   handleLogin stdURL ios \<lparr>type = success, url = Some ''my_app://cb?x=1&code=A1&state=B2''\<rparr> =
     Success ''A1'' ''B2''"
proof -
  have os: "ios \<noteq> web" by simp
  have t: "stdURL (urlStr ''my_app://cb?x=1&code=A1&state=B2'') = None" by code_simp
  have c: "first_value ''code'' ''my_app://cb?x=1&code=A1&state=B2'' ''A1''"
    unfolding first_value_def
    by (rule exI [of _ 15]) (simp add: match_at_def startsWith_def All_less_Suc numeral_eq_Suc)
  have s: "first_value ''state'' ''my_app://cb?x=1&code=A1&state=B2'' ''B2''"
    unfolding first_value_def
    by (rule exI [of _ 23]) (simp add: match_at_def startsWith_def All_less_Suc numeral_eq_Suc)
  have d: "decodeURIComponent ''A1'' = Some ''A1''" "decodeURIComponent ''B2'' = Some ''B2''"
    by (simp_all add: decodeURIComponent_def)
  have n: "''my_app://cb?x=1&code=A1&state=B2'' \<noteq> []" by simp
  show ?thesis
    using os t c s d
      fallback_extracts_code_and_state
        [where os = ios and newURL = stdURL and u = "''my_app://cb?x=1&code=A1&state=B2''"
           and c = "''A1''" and s = "''B2''" and code = "''A1''" and state = "''B2''",
         OF os t n]
    by simp
qed

end
